theory Spec2Isabelle
  imports Main "HOL-Library.Word"
begin

section \<open>Data model\<close>

text \<open>
  The program is one Go file: an AWS Lambda handler that routes on the HTTP method,
  creates a short URL (POST) or redirects from one (GET), and keeps its records in a
  DynamoDB table. Go's \<open>error\<close> values are modelled by their message.
\<close>

type_synonym error = string

text \<open>\<open>time.Time\<close>, held as the value \<open>UnixNano()\<close> gives (an \<open>int64\<close>).\<close>

type_synonym Time = "64 word"

text \<open>\<open>type URLMapping struct\<close>: the item stored in the table.\<close>

record URLMapping =
  ShortURL :: string
  LongURL :: string
  CreatedAt :: Time
  AccessCount :: int

text \<open>\<open>type CreateURLRequest struct\<close>: the JSON body of a POST request.\<close>

record CreateURLRequest =
  CreateLongURL :: string

text \<open>
  \<open>events.APIGatewayProxyRequest\<close> and \<open>events.APIGatewayProxyResponse\<close>, with the
  fields the handlers read and write. A Go map that was never assigned (\<open>nil\<close>) reads
  as the empty map.
\<close>

record APIGatewayProxyRequest =
  HTTPMethod :: string
  RequestBody :: string
  PathParameters :: "string \<rightharpoonup> string"

record APIGatewayProxyResponse =
  StatusCode :: int
  Headers :: "(string \<times> string) list"
  Body :: string

text \<open>
  \<open>types.AttributeValue\<close> (the members for strings, numbers, booleans and null) and an
  item, \<open>map[string]types.AttributeValue\<close>.
\<close>

datatype AttributeValue =
    AttributeValueMemberS string
  | AttributeValueMemberN string
  | AttributeValueMemberBOOL bool
  | AttributeValueMemberNULL bool

type_synonym Item = "(string \<times> AttributeValue) list"

text \<open>
  The inputs of the three DynamoDB operations the program calls. Arguments in order:
  \<open>TableName\<close>, then \<open>Item\<close> (put) or \<open>Key\<close> (get, update), then for update the
  \<open>UpdateExpression\<close> and the \<open>ExpressionAttributeValues\<close>.
\<close>

datatype PutItemInput = PutItemInput string Item
datatype GetItemInput = GetItemInput string Item
datatype UpdateItemInput = UpdateItemInput string Item string "(string \<times> AttributeValue) list"

text \<open>\<open>dynamodb.GetItemOutput\<close>: its \<open>Item\<close> is \<open>nil\<close> (\<open>None\<close>) when no record has the key.\<close>

datatype GetItemOutput = GetItemOutput "Item option"

text \<open>A request sent to the table; the world below keeps them in the order they were sent.\<close>

datatype Call =
    PutItemCall PutItemInput
  | GetItemCall GetItemInput
  | UpdateItemCall UpdateItemInput

text \<open>A JSON value as \<open>encoding/json\<close> scans it; object members keep their order.\<close>

datatype json =
    JNull
  | JBool bool
  | JNumber string
  | JString string
  | JArray "json list"
  | JObject "(string \<times> json) list"

section \<open>The collaborators\<close>

text \<open>
  What the handlers call but do not define: the clock, the JSON scanner and encoder, the
  \<open>attributevalue\<close> codec, and the DynamoDB client over a table of state \<open>'db\<close>. They
  are parameters, so every theorem below holds whatever they answer, unless it says what
  it needs of them.
  \<^item> \<open>tableName\<close>: the global read from the environment at start-up.
  \<^item> \<open>clock n\<close>: what the \<open>n\<close>-th call of \<open>time.Now()\<close> returns.
  \<^item> \<open>json_scan\<close>: the syntax check and scan of \<open>json.Unmarshal\<close>; \<open>None\<close> is a syntax error.
  \<^item> \<open>json_Marshal\<close>: \<open>json.Marshal\<close> of a \<open>URLMapping\<close> (the handler drops its error).
  \<^item> \<open>MarshalMap\<close>, \<open>MarshalMap_key\<close>: \<open>attributevalue.MarshalMap\<close> at the two types it is
    called with, \<open>URLMapping\<close> and \<open>map[string]string\<close>.
  \<^item> \<open>UnmarshalMap\<close>: \<open>attributevalue.UnmarshalMap\<close> into a \<open>URLMapping\<close>.
  \<^item> \<open>PutItem\<close>, \<open>GetItem\<close>, \<open>UpdateItem\<close>: the client's operations; a write returns the
    error (if any) and the table afterwards, a read leaves the table as it is.
\<close>

record 'db Env =
  tableName :: string
  clock :: "nat \<Rightarrow> Time"
  json_scan :: "string \<Rightarrow> json option"
  json_Marshal :: "URLMapping \<Rightarrow> string"
  MarshalMap :: "URLMapping \<Rightarrow> error + Item"
  MarshalMap_key :: "(string \<times> string) list \<Rightarrow> error + Item"
  UnmarshalMap :: "Item \<Rightarrow> error + URLMapping"
  PutItem :: "'db \<Rightarrow> PutItemInput \<Rightarrow> error option \<times> 'db"
  GetItem :: "'db \<Rightarrow> GetItemInput \<Rightarrow> error + GetItemOutput"
  UpdateItem :: "'db \<Rightarrow> UpdateItemInput \<Rightarrow> error option \<times> 'db"

text \<open>
  The state outside the handler: the table, the requests sent to it so far, the lines
  written by \<open>log.Printf\<close>, and how many times the clock was read.
\<close>

record 'db World =
  db :: 'db
  calls :: "Call list"
  logs :: "string list"
  ticks :: nat

definition time_Now :: "'db Env \<Rightarrow> 'db World \<Rightarrow> Time \<times> 'db World" where
  "time_Now env w = (clock env (ticks w), w\<lparr>ticks := Suc (ticks w)\<rparr>)"

definition ddb_PutItem :: "'db Env \<Rightarrow> 'db World \<Rightarrow> PutItemInput \<Rightarrow> error option \<times> 'db World" where
  "ddb_PutItem env w inp =
     (case PutItem env (db w) inp of
        (err, db') \<Rightarrow> (err, w\<lparr>db := db', calls := calls w @ [PutItemCall inp]\<rparr>))"

definition ddb_GetItem ::
  "'db Env \<Rightarrow> 'db World \<Rightarrow> GetItemInput \<Rightarrow> (error + GetItemOutput) \<times> 'db World" where
  "ddb_GetItem env w inp =
     (GetItem env (db w) inp, w\<lparr>calls := calls w @ [GetItemCall inp]\<rparr>)"

definition ddb_UpdateItem ::
  "'db Env \<Rightarrow> 'db World \<Rightarrow> UpdateItemInput \<Rightarrow> error option \<times> 'db World" where
  "ddb_UpdateItem env w inp =
     (case UpdateItem env (db w) inp of
        (err, db') \<Rightarrow> (err, w\<lparr>db := db', calls := calls w @ [UpdateItemCall inp]\<rparr>))"

definition log_Printf :: "string \<Rightarrow> 'db World \<Rightarrow> 'db World" where
  "log_Printf line w = w\<lparr>logs := logs w @ [line]\<rparr>"

section \<open>Formatting and slicing\<close>

text \<open>\<open>fmt.Sprintf("%d", n)\<close>: the decimal digits of \<open>n\<close>, after a minus sign when \<open>n < 0\<close>.\<close>

definition digit_char :: "nat \<Rightarrow> char" where
  "digit_char d = ''0123456789'' ! d"

definition is_digit :: "char \<Rightarrow> bool" where
  "is_digit c = (c \<in> set ''0123456789'')"

function FormatUint :: "nat \<Rightarrow> string" where
  "FormatUint n =
     (if n < 10 then [digit_char n] else FormatUint (n div 10) @ [digit_char (n mod 10)])"
  by pat_completeness auto
termination
  by (relation "measure id") auto

declare FormatUint.simps [simp del]

definition Sprintf_d :: "int \<Rightarrow> string" where
  "Sprintf_d i = (if i < 0 then CHR ''-'' # FormatUint (nat (- i)) else FormatUint (nat i))"

text \<open>The slice \<open>s[:n]\<close>: Go panics when \<open>n\<close> is beyond the length of \<open>s\<close>.\<close>

definition slice_to :: "string \<Rightarrow> nat \<Rightarrow> string option" where
  "slice_to s n = (if n \<le> length s then Some (take n s) else None)"

section \<open>Decoding the request body\<close>

text \<open>
  \<open>json.Unmarshal([]byte(request.Body), &createReq)\<close>. The struct has one field, a
  \<open>string\<close> tagged \<open>json:"long_url"\<close>. Go matches an object key to it exactly or without
  regard to letter case; a string value is stored, \<open>null\<close> leaves the field as it is, any
  other value records a type error (the first is kept) and decoding goes on; keys that
  match no field are skipped. At the top, \<open>null\<close> leaves the struct as it is and any value
  but an object is a type error.
\<close>

definition to_lower :: "char \<Rightarrow> char" where
  "to_lower c =
     (let n = (of_char c :: nat) in if 65 \<le> n \<and> n \<le> 90 then char_of (n + 32) else c)"

definition equalFold :: "string \<Rightarrow> string \<Rightarrow> bool" where
  "equalFold s t = (map to_lower s = map to_lower t)"

definition saveError :: "error \<Rightarrow> error option \<Rightarrow> error option" where
  "saveError e saved = (case saved of None \<Rightarrow> Some e | Some e0 \<Rightarrow> Some e0)"

fun decode_object ::
  "(string \<times> json) list \<Rightarrow> CreateURLRequest \<times> error option \<Rightarrow> CreateURLRequest \<times> error option" where
  "decode_object [] st = st"
| "decode_object ((k, v) # kvs) (req, saved) =
     (if equalFold k ''long_url'' then
        (case v of
           JString s \<Rightarrow> decode_object kvs (req\<lparr>CreateLongURL := s\<rparr>, saved)
         | JNull \<Rightarrow> decode_object kvs (req, saved)
         | _ \<Rightarrow> decode_object kvs (req, saveError ''json: cannot unmarshal into Go struct field CreateURLRequest.long_url of type string'' saved))
      else decode_object kvs (req, saved))"

definition json_Unmarshal :: "'db Env \<Rightarrow> string \<Rightarrow> error + CreateURLRequest" where
  "json_Unmarshal env body =
     (case json_scan env body of
        None \<Rightarrow> Inl ''json: syntax error''
      | Some JNull \<Rightarrow> Inr \<lparr>CreateLongURL = ''''\<rparr>
      | Some (JObject kvs) \<Rightarrow>
          (case decode_object kvs (\<lparr>CreateLongURL = ''''\<rparr>, None) of
             (req, None) \<Rightarrow> Inr req
           | (req, Some e) \<Rightarrow> Inl e)
      | Some _ \<Rightarrow> Inl ''json: cannot unmarshal into Go value of type main.CreateURLRequest'')"

section \<open>The handlers\<close>

text \<open>A handler returns a response and an error (\<open>nil\<close> is \<open>None\<close>), or panics.\<close>

datatype Outcome =
    Panic string
  | Return APIGatewayProxyResponse "error option"

text \<open>\<open>func generateShortURL() string\<close>: \<open>fmt.Sprintf("%d", time.Now().UnixNano())[:8]\<close>.\<close>

definition generateShortURL :: "'db Env \<Rightarrow> 'db World \<Rightarrow> string option \<times> 'db World" where
  "generateShortURL env w =
     (case time_Now env w of (t, w1) \<Rightarrow> (slice_to (Sprintf_d (sint t)) 8, w1))"

text \<open>\<open>func createShortURL\<close>: handles POST.\<close>

definition createShortURL ::
  "'db Env \<Rightarrow> 'db World \<Rightarrow> APIGatewayProxyRequest \<Rightarrow> Outcome \<times> 'db World" where
  "createShortURL env w request =
     (case json_Unmarshal env (RequestBody request) of
        Inl err \<Rightarrow>
          (Return \<lparr>StatusCode = 400, Headers = [], Body = ''Invalid request body''\<rparr> None, w)
      | Inr createReq \<Rightarrow>
          (case generateShortURL env w of
             (None, w1) \<Rightarrow> (Panic ''runtime error: slice bounds out of range'', w1)
           | (Some shortURL, w1) \<Rightarrow>
               (case time_Now env w1 of
                  (now, w2) \<Rightarrow>
                    (let urlMapping =
                           \<lparr>ShortURL = shortURL, LongURL = CreateLongURL createReq,
                            CreatedAt = now, AccessCount = 0\<rparr>
                     in case MarshalMap env urlMapping of
                          Inl err \<Rightarrow>
                            (Return \<lparr>StatusCode = 500, Headers = [],
                                     Body = ''Error marshaling item''\<rparr> (Some err), w2)
                        | Inr item \<Rightarrow>
                            (case ddb_PutItem env w2 (PutItemInput (tableName env) item) of
                               (Some err, w3) \<Rightarrow>
                                 (Return \<lparr>StatusCode = 500, Headers = [],
                                          Body = ''Error saving to DynamoDB''\<rparr> (Some err), w3)
                             | (None, w3) \<Rightarrow>
                                 (Return \<lparr>StatusCode = 201,
                                          Headers = [(''Content-Type'', ''application/json'')],
                                          Body = json_Marshal env urlMapping\<rparr> None, w3))))))"

text \<open>
  \<open>func getOriginalURL\<close>: handles GET. Indexing \<open>request.PathParameters\<close> with a key it
  does not hold gives the empty string.
\<close>

definition path_shortURL :: "APIGatewayProxyRequest \<Rightarrow> string" where
  "path_shortURL request =
     (case PathParameters request ''shortURL'' of None \<Rightarrow> '''' | Some s \<Rightarrow> s)"

definition increment_input :: "'db Env \<Rightarrow> Item \<Rightarrow> UpdateItemInput" where
  "increment_input env key =
     UpdateItemInput (tableName env) key ''SET access_count + :inc''
       [('':inc'', AttributeValueMemberN ''1'')]"

definition getOriginalURL ::
  "'db Env \<Rightarrow> 'db World \<Rightarrow> APIGatewayProxyRequest \<Rightarrow> Outcome \<times> 'db World" where
  "getOriginalURL env w request =
     (let shortURL = path_shortURL request
      in case MarshalMap_key env [(''short_url'', shortURL)] of
           Inl err \<Rightarrow>
             (Return \<lparr>StatusCode = 500, Headers = [], Body = ''Error creating key''\<rparr> (Some err), w)
         | Inr key \<Rightarrow>
             (case ddb_GetItem env w (GetItemInput (tableName env) key) of
                (Inl err, w1) \<Rightarrow>
                  (Return \<lparr>StatusCode = 500, Headers = [],
                           Body = ''Error querying DynamoDB''\<rparr> (Some err), w1)
              | (Inr (GetItemOutput None), w1) \<Rightarrow>
                  (Return \<lparr>StatusCode = 404, Headers = [], Body = ''URL not found''\<rparr> None, w1)
              | (Inr (GetItemOutput (Some item)), w1) \<Rightarrow>
                  (case UnmarshalMap env item of
                     Inl err \<Rightarrow>
                       (Return \<lparr>StatusCode = 500, Headers = [],
                                Body = ''Error unmarshaling item''\<rparr> (Some err), w1)
                   | Inr urlMapping \<Rightarrow>
                       (case ddb_UpdateItem env w1 (increment_input env key) of
                          (err, w2) \<Rightarrow>
                            (Return \<lparr>StatusCode = 301,
                                     Headers = [(''Location'', LongURL urlMapping)],
                                     Body = ''''\<rparr> None,
                             (case err of
                                None \<Rightarrow> w2
                              | Some e \<Rightarrow> log_Printf (''Error updating access count :'' @ e) w2))))))"

text \<open>\<open>func handleRequest\<close>: the Lambda entry point; routes on the HTTP method.\<close>

definition handleRequest ::
  "'db Env \<Rightarrow> 'db World \<Rightarrow> APIGatewayProxyRequest \<Rightarrow> Outcome \<times> 'db World" where
  "handleRequest env w request =
     (if HTTPMethod request = ''POST'' then createShortURL env w request
      else if HTTPMethod request = ''GET'' then getOriginalURL env w request
      else (Return \<lparr>StatusCode = 405, Headers = [], Body = ''Method not allowed''\<rparr> None, w))"

section \<open>What Resolve reads, and what the theorems ask of the collaborators\<close>

text \<open>
  The record Resolve finds for a short code in a table: the key is marshalled, the item
  fetched and unmarshalled, as \<open>getOriginalURL\<close> does; \<open>None\<close> when any step fails or no
  item has the key.
\<close>

definition stored :: "'db Env \<Rightarrow> 'db \<Rightarrow> string \<Rightarrow> URLMapping option" where
  "stored env d code =
     (case MarshalMap_key env [(''short_url'', code)] of
        Inl err \<Rightarrow> None
      | Inr key \<Rightarrow>
          (case GetItem env d (GetItemInput (tableName env) key) of
             Inl err \<Rightarrow> None
           | Inr (GetItemOutput None) \<Rightarrow> None
           | Inr (GetItemOutput (Some item)) \<Rightarrow>
               (case UnmarshalMap env item of Inl err \<Rightarrow> None | Inr m \<Rightarrow> Some m)))"

text \<open>
  The store and the codec read back what was written: after a put of a marshalled
  record that reported no error, the record read under its short code has its long URL.
\<close>

definition read_your_write :: "'db Env \<Rightarrow> bool" where
  "read_your_write env =
     (\<forall>d d' m item.
        MarshalMap env m = Inr item \<and> PutItem env d (PutItemInput (tableName env) item) = (None, d')
        \<longrightarrow> (\<exists>m'. stored env d' (ShortURL m) = Some m' \<and> LongURL m' = LongURL m))"

text \<open>
  Whatever the store does with the update request that \<open>getOriginalURL\<close> sends, it keeps
  every record readable with its long URL, and its counter does not go down.
\<close>

definition increment_safe :: "'db Env \<Rightarrow> bool" where
  "increment_safe env =
     (\<forall>d key code m.
        stored env d code = Some m
        \<longrightarrow> (\<exists>m'. stored env (snd (UpdateItem env d (increment_input env key))) code = Some m'
                  \<and> LongURL m' = LongURL m \<and> AccessCount m \<le> AccessCount m'))"

text \<open>A run of Resolve requests, one after the other; the world after the last.\<close>

fun resolve_all :: "'db Env \<Rightarrow> 'db World \<Rightarrow> APIGatewayProxyRequest list \<Rightarrow> 'db World" where
  "resolve_all env w [] = w"
| "resolve_all env w (r # rs) = resolve_all env (snd (getOriginalURL env w r)) rs"

text \<open>
  The bodies \<open>json.Unmarshal\<close> refuses, said directly: text that does not scan, a value
  that is neither an object nor \<open>null\<close>, or an object with a member for \<open>long_url\<close>
  whose value is neither a string nor \<open>null\<close>.
\<close>

definition is_string_or_null :: "json \<Rightarrow> bool" where
  "is_string_or_null v = (case v of JString s \<Rightarrow> True | JNull \<Rightarrow> True | _ \<Rightarrow> False)"

fun malformed_long_url :: "(string \<times> json) list \<Rightarrow> bool" where
  "malformed_long_url [] = False"
| "malformed_long_url ((k, v) # kvs) =
     ((equalFold k ''long_url'' \<and> \<not> is_string_or_null v) \<or> malformed_long_url kvs)"

definition undecodable :: "json option \<Rightarrow> bool" where
  "undecodable scanned =
     (case scanned of
        None \<Rightarrow> True
      | Some JNull \<Rightarrow> False
      | Some (JObject kvs) \<Rightarrow> malformed_long_url kvs
      | Some _ \<Rightarrow> True)"

section \<open>A reference environment\<close>

text \<open>
  One concrete choice of the collaborators, to run the handlers on: a scanner for JSON
  text (Unicode escapes are outside it and refused), a codec that writes the two numbers
  in decimal, and a table in memory keyed by the \<open>short_url\<close> attribute. The table
  refuses an empty key and refuses the update expression it is sent, which is not of the
  form \<open>SET path = value\<close>. The universally quantified theorems do not depend on it.
\<close>

definition dquote :: char where "dquote = CHR 0x22"
definition backslash :: char where "backslash = CHR 0x5C"

definition is_space :: "char \<Rightarrow> bool" where
  "is_space c = (c = CHR '' '' \<or> c = CHR 0x09 \<or> c = CHR 0x0A \<or> c = CHR 0x0D)"

fun skip_ws :: "string \<Rightarrow> string" where
  "skip_ws [] = []"
| "skip_ws (c # cs) = (if is_space c then skip_ws cs else c # cs)"

definition unescape :: "char \<Rightarrow> char option" where
  "unescape e =
     (if e = dquote then Some dquote
      else if e = backslash then Some backslash
      else if e = CHR ''/'' then Some CHR ''/''
      else if e = CHR ''b'' then Some (CHR 0x08)
      else if e = CHR ''f'' then Some (CHR 0x0C)
      else if e = CHR ''n'' then Some (CHR 0x0A)
      else if e = CHR ''r'' then Some (CHR 0x0D)
      else if e = CHR ''t'' then Some (CHR 0x09)
      else None)"

fun scan_string :: "string \<Rightarrow> string \<Rightarrow> (string \<times> string) option" where
  "scan_string [] acc = None"
| "scan_string [c] acc = (if c = dquote then Some (rev acc, []) else None)"
| "scan_string (c # d # cs) acc =
     (if c = dquote then Some (rev acc, d # cs)
      else if c = backslash then
        (case unescape d of None \<Rightarrow> None | Some ch \<Rightarrow> scan_string cs (ch # acc))
      else if (of_char c :: nat) < 32 then None
      else scan_string (d # cs) (c # acc))"

definition scan_digits :: "string \<Rightarrow> (string \<times> string) option" where
  "scan_digits s =
     (case takeWhile is_digit s of [] \<Rightarrow> None | ds \<Rightarrow> Some (ds, dropWhile is_digit s))"

definition scan_int :: "string \<Rightarrow> (string \<times> string) option" where
  "scan_int s =
     (case s of
        [] \<Rightarrow> None
      | c # cs \<Rightarrow>
          if c = CHR ''0'' then Some (''0'', cs)
          else scan_digits s)"

definition scan_frac :: "string \<Rightarrow> (string \<times> string) option" where
  "scan_frac s =
     (case s of
        [] \<Rightarrow> Some ([], [])
      | c # cs \<Rightarrow>
          if c = CHR ''.'' then map_option (\<lambda>(ds, r). (c # ds, r)) (scan_digits cs)
          else Some ([], s))"

definition scan_exp :: "string \<Rightarrow> (string \<times> string) option" where
  "scan_exp s =
     (case s of
        [] \<Rightarrow> Some ([], [])
      | c # cs \<Rightarrow>
          if c = CHR ''e'' \<or> c = CHR ''E'' then
            (case cs of
               [] \<Rightarrow> None
             | g # gs \<Rightarrow>
                 if g = CHR ''+'' \<or> g = CHR ''-'' then
                   map_option (\<lambda>(ds, r). (c # g # ds, r)) (scan_digits gs)
                 else map_option (\<lambda>(ds, r). (c # ds, r)) (scan_digits cs))
          else Some ([], s))"

definition scan_number :: "string \<Rightarrow> (string \<times> string) option" where
  "scan_number s =
     (let (sign, s0) = (case s of [] \<Rightarrow> ([], s) | c # cs \<Rightarrow> if c = CHR ''-'' then ([c], cs) else ([], s))
      in case scan_int s0 of
           None \<Rightarrow> None
         | Some (i, s1) \<Rightarrow>
             (case scan_frac s1 of
                None \<Rightarrow> None
              | Some (f, s2) \<Rightarrow>
                  (case scan_exp s2 of
                     None \<Rightarrow> None
                   | Some (e, s3) \<Rightarrow> Some (sign @ i @ f @ e, s3))))"

definition strip_prefix :: "string \<Rightarrow> string \<Rightarrow> string option" where
  "strip_prefix p s = (if take (length p) s = p then Some (drop (length p) s) else None)"

fun scan_value :: "nat \<Rightarrow> string \<Rightarrow> (json \<times> string) option"
  and scan_elems :: "nat \<Rightarrow> string \<Rightarrow> json list \<Rightarrow> (json \<times> string) option"
  and scan_members :: "nat \<Rightarrow> string \<Rightarrow> (string \<times> json) list \<Rightarrow> (json \<times> string) option" where
  "scan_value 0 s = None"
| "scan_value (Suc f) s =
     (case skip_ws s of
        [] \<Rightarrow> None
      | c # cs \<Rightarrow>
          if c = CHR ''{'' then
            (case skip_ws cs of
               [] \<Rightarrow> None
             | d # r \<Rightarrow> if d = CHR ''}'' then Some (JObject [], r) else scan_members f cs [])
          else if c = CHR ''['' then
            (case skip_ws cs of
               [] \<Rightarrow> None
             | d # r \<Rightarrow> if d = CHR '']'' then Some (JArray [], r) else scan_elems f cs [])
          else if c = dquote then map_option (\<lambda>(t, r). (JString t, r)) (scan_string cs [])
          else if c = CHR ''t'' then map_option (\<lambda>r. (JBool True, r)) (strip_prefix ''true'' (c # cs))
          else if c = CHR ''f'' then map_option (\<lambda>r. (JBool False, r)) (strip_prefix ''false'' (c # cs))
          else if c = CHR ''n'' then map_option (\<lambda>r. (JNull, r)) (strip_prefix ''null'' (c # cs))
          else map_option (\<lambda>(t, r). (JNumber t, r)) (scan_number (c # cs)))"
| "scan_elems 0 s acc = None"
| "scan_elems (Suc f) s acc =
     (case scan_value f s of
        None \<Rightarrow> None
      | Some (v, r) \<Rightarrow>
          (case skip_ws r of
             [] \<Rightarrow> None
           | d # r' \<Rightarrow>
               if d = CHR '','' then scan_elems f r' (v # acc)
               else if d = CHR '']'' then Some (JArray (rev (v # acc)), r')
               else None))"
| "scan_members 0 s acc = None"
| "scan_members (Suc f) s acc =
     (case skip_ws s of
        [] \<Rightarrow> None
      | q # r \<Rightarrow>
          if q \<noteq> dquote then None
          else
            (case scan_string r [] of
               None \<Rightarrow> None
             | Some (k, r1) \<Rightarrow>
                 (case skip_ws r1 of
                    [] \<Rightarrow> None
                  | colon # r2 \<Rightarrow>
                      if colon \<noteq> CHR '':'' then None
                      else
                        (case scan_value f r2 of
                           None \<Rightarrow> None
                         | Some (v, r3) \<Rightarrow>
                             (case skip_ws r3 of
                                [] \<Rightarrow> None
                              | d # r4 \<Rightarrow>
                                  if d = CHR '','' then scan_members f r4 ((k, v) # acc)
                                  else if d = CHR ''}'' then Some (JObject (rev ((k, v) # acc)), r4)
                                  else None)))))"

definition mem_json_scan :: "string \<Rightarrow> json option" where
  "mem_json_scan body =
     (case scan_value (Suc (length body)) body of
        None \<Rightarrow> None
      | Some (v, r) \<Rightarrow> if skip_ws r = [] then Some v else None)"

definition digit_val :: "char \<Rightarrow> nat" where
  "digit_val c = length (takeWhile (\<lambda>d. d \<noteq> c) ''0123456789'')"

definition ParseUint :: "string \<Rightarrow> nat option" where
  "ParseUint s =
     (if s \<noteq> [] \<and> list_all is_digit s
      then Some (foldl (\<lambda>a c. 10 * a + digit_val c) 0 s) else None)"

definition Atoi :: "string \<Rightarrow> int option" where
  "Atoi s =
     (case s of
        [] \<Rightarrow> None
      | c # cs \<Rightarrow>
          if c = CHR ''-'' then map_option (\<lambda>n. - int n) (ParseUint cs)
          else map_option int (ParseUint s))"

definition mem_MarshalMap :: "URLMapping \<Rightarrow> error + Item" where
  "mem_MarshalMap m =
     Inr [(''short_url'', AttributeValueMemberS (ShortURL m)),
          (''long_url'', AttributeValueMemberS (LongURL m)),
          (''created_at'', AttributeValueMemberS (Sprintf_d (sint (CreatedAt m)))),
          (''access_count'', AttributeValueMemberN (Sprintf_d (AccessCount m)))]"

definition mem_MarshalMap_key :: "(string \<times> string) list \<Rightarrow> error + Item" where
  "mem_MarshalMap_key kvs = Inr (map (\<lambda>(k, v). (k, AttributeValueMemberS v)) kvs)"

definition attr_string :: "Item \<Rightarrow> string \<Rightarrow> error + string" where
  "attr_string item name =
     (case map_of item name of
        None \<Rightarrow> Inr ''''
      | Some (AttributeValueMemberS s) \<Rightarrow> Inr s
      | Some _ \<Rightarrow> Inl (''unmarshal failed, cannot unmarshal attribute '' @ name))"

definition attr_int :: "Item \<Rightarrow> string \<Rightarrow> error + int" where
  "attr_int item name =
     (case map_of item name of
        None \<Rightarrow> Inr 0
      | Some (AttributeValueMemberN s) \<Rightarrow>
          (case Atoi s of
             None \<Rightarrow> Inl (''unmarshal failed, cannot unmarshal attribute '' @ name)
           | Some i \<Rightarrow> Inr i)
      | Some _ \<Rightarrow> Inl (''unmarshal failed, cannot unmarshal attribute '' @ name))"

definition attr_time :: "Item \<Rightarrow> string \<Rightarrow> error + Time" where
  "attr_time item name =
     (case map_of item name of
        None \<Rightarrow> Inr 0
      | Some (AttributeValueMemberS s) \<Rightarrow>
          (case Atoi s of
             None \<Rightarrow> Inl (''unmarshal failed, cannot unmarshal attribute '' @ name)
           | Some i \<Rightarrow> Inr (word_of_int i))
      | Some _ \<Rightarrow> Inl (''unmarshal failed, cannot unmarshal attribute '' @ name))"

definition mem_UnmarshalMap :: "Item \<Rightarrow> error + URLMapping" where
  "mem_UnmarshalMap item =
     (case attr_string item ''short_url'' of
        Inl e \<Rightarrow> Inl e
      | Inr s \<Rightarrow>
          (case attr_string item ''long_url'' of
             Inl e \<Rightarrow> Inl e
           | Inr l \<Rightarrow>
               (case attr_time item ''created_at'' of
                  Inl e \<Rightarrow> Inl e
                | Inr t \<Rightarrow>
                    (case attr_int item ''access_count'' of
                       Inl e \<Rightarrow> Inl e
                     | Inr n \<Rightarrow>
                         Inr \<lparr>ShortURL = s, LongURL = l, CreatedAt = t, AccessCount = n\<rparr>))))"

type_synonym Table = "(string \<times> Item) list"

definition key_of :: "Item \<Rightarrow> string option" where
  "key_of item =
     (case map_of item ''short_url'' of
        Some (AttributeValueMemberS s) \<Rightarrow> if s = [] then None else Some s
      | _ \<Rightarrow> None)"

fun mem_PutItem :: "Table \<Rightarrow> PutItemInput \<Rightarrow> error option \<times> Table" where
  "mem_PutItem tbl (PutItemInput t item) =
     (case key_of item of
        None \<Rightarrow> (Some ''ValidationException: missing or empty key'', tbl)
      | Some k \<Rightarrow> (None, (k, item) # tbl))"

fun mem_GetItem :: "Table \<Rightarrow> GetItemInput \<Rightarrow> error + GetItemOutput" where
  "mem_GetItem tbl (GetItemInput t key) =
     (case key_of key of
        None \<Rightarrow> Inl ''ValidationException: missing or empty key''
      | Some k \<Rightarrow> Inr (GetItemOutput (map_of tbl k)))"

fun mem_UpdateItem :: "Table \<Rightarrow> UpdateItemInput \<Rightarrow> error option \<times> Table" where
  "mem_UpdateItem tbl (UpdateItemInput t key expr vals) =
     (Some ''ValidationException: Invalid UpdateExpression: Syntax error'', tbl)"

definition escape_json :: "string \<Rightarrow> string" where
  "escape_json s =
     concat (map (\<lambda>c. if c = dquote \<or> c = backslash then [backslash, c] else [c]) s)"

definition mem_json_Marshal :: "URLMapping \<Rightarrow> string" where
  "mem_json_Marshal m =
     ''{'' @ [dquote] @ ''short_url'' @ [dquote] @ '':'' @ [dquote] @ escape_json (ShortURL m) @ [dquote]
     @ '','' @ [dquote] @ ''long_url'' @ [dquote] @ '':'' @ [dquote] @ escape_json (LongURL m) @ [dquote]
     @ '','' @ [dquote] @ ''created_at'' @ [dquote] @ '':'' @ [dquote] @ Sprintf_d (sint (CreatedAt m)) @ [dquote]
     @ '','' @ [dquote] @ ''access_count'' @ [dquote] @ '':'' @ Sprintf_d (AccessCount m) @ ''}''"

definition mem_env :: "Table Env" where
  "mem_env =
     \<lparr>tableName = ''url-shortener'',
      clock = (\<lambda>n. 1700000000123456789 + 1000 * word_of_nat n),
      json_scan = mem_json_scan,
      json_Marshal = mem_json_Marshal,
      MarshalMap = mem_MarshalMap,
      MarshalMap_key = mem_MarshalMap_key,
      UnmarshalMap = mem_UnmarshalMap,
      PutItem = mem_PutItem,
      GetItem = mem_GetItem,
      UpdateItem = mem_UpdateItem\<rparr>"

definition world0 :: "Table World" where
  "world0 = \<lparr>db = [], calls = [], logs = [], ticks = 0\<rparr>"

definition post :: "string \<Rightarrow> APIGatewayProxyRequest" where
  "post body = \<lparr>HTTPMethod = ''POST'', RequestBody = body, PathParameters = Map.empty\<rparr>"

definition get_code :: "string \<Rightarrow> APIGatewayProxyRequest" where
  "get_code code = \<lparr>HTTPMethod = ''GET'', RequestBody = '''', PathParameters = [''shortURL'' \<mapsto> code]\<rparr>"


text \<open>
  Example data: the item and the world a Create of \<open>https://example.com\<close> leaves behind, a
  GET request with no path parameter, and the reference environment with a codec that
  fails to marshal.
\<close>

definition example_item :: Item where
  "example_item =
     [(''short_url'', AttributeValueMemberS ''17000000''),
      (''long_url'', AttributeValueMemberS ''https://example.com''),
      (''created_at'', AttributeValueMemberS ''1700000000123457789''),
      (''access_count'', AttributeValueMemberN ''0'')]"

definition world1 :: "Table World" where
  "world1 =
     \<lparr>db = [(''17000000'', example_item)],
      calls = [PutItemCall (PutItemInput ''url-shortener'' example_item)],
      logs = [], ticks = 2\<rparr>"

definition get_without_code :: APIGatewayProxyRequest where
  "get_without_code = \<lparr>HTTPMethod = ''GET'', RequestBody = [], PathParameters = Map.empty\<rparr>"

definition no_marshal_env :: "Table Env" where
  "no_marshal_env = mem_env\<lparr>MarshalMap := (\<lambda>m. Inl ''marshal failed'')\<rparr>"

text \<open>
  The reference environment with the clock five nanoseconds after the Unix epoch, and
  with the clock before the epoch (the year 1916).
\<close>

definition epoch_env :: "Table Env" where
  "epoch_env = mem_env\<lparr>clock := (\<lambda>n. 5)\<rparr>"

definition before_epoch_env :: "Table Env" where
  "before_epoch_env = mem_env\<lparr>clock := (\<lambda>n. - 1700000000123456789)\<rparr>"

text \<open>
  A second table for the reference environment: it carries the update request out as an
  increment by one of the item's \<open>access_count\<close>, the \<open>increment(key, field, delta)\<close> of
  the store contract.
\<close>

definition bump :: "AttributeValue \<Rightarrow> AttributeValue" where
  "bump v =
     (case v of
        AttributeValueMemberN s \<Rightarrow>
          (case Atoi s of None \<Rightarrow> v | Some i \<Rightarrow> AttributeValueMemberN (Sprintf_d (i + 1)))
      | _ \<Rightarrow> v)"

definition bump_item :: "Item \<Rightarrow> Item" where
  "bump_item item = map (\<lambda>(n, v). if n = ''access_count'' then (n, bump v) else (n, v)) item"

fun counting_UpdateItem :: "Table \<Rightarrow> UpdateItemInput \<Rightarrow> error option \<times> Table" where
  "counting_UpdateItem tbl (UpdateItemInput t key expr vals) =
     (case key_of key of
        None \<Rightarrow> (Some ''ValidationException: missing or empty key'', tbl)
      | Some k \<Rightarrow>
          (case map_of tbl k of
             None \<Rightarrow> (Some ''ConditionalCheckFailedException'', tbl)
           | Some item \<Rightarrow> (None, (k, bump_item item) # tbl)))"

definition counting_env :: "Table Env" where
  "counting_env = mem_env\<lparr>UpdateItem := counting_UpdateItem\<rparr>"

section \<open>Decimal digits\<close>

text \<open>The rendering of a number has only digits, has more than \<open>k\<close> of them from \<open>10 ^ k\<close> on, and parses back to the number.\<close>

lemma digit_char_is_digit: "d < 10 \<Longrightarrow> is_digit (digit_char d)"
  by (simp add: is_digit_def digit_char_def del: set_simps)

lemma FormatUint_digits: "list_all is_digit (FormatUint n)"
proof (induction n rule: FormatUint.induct)
  case (1 n)
  show ?case
  proof (cases "n < 10")
    case True
    then show ?thesis by (simp add: FormatUint.simps [of n] digit_char_is_digit)
  next
    case False
    with 1 show ?thesis by (simp add: FormatUint.simps [of n] digit_char_is_digit)
  qed
qed

lemma FormatUint_length: "10 ^ k \<le> n \<Longrightarrow> k < length (FormatUint n)"
proof (induction n arbitrary: k rule: FormatUint.induct)
  case (1 n)
  show ?case
  proof (cases "n < 10")
    case True
    have "k = 0"
    proof (rule ccontr)
      assume "k \<noteq> 0"
      then have "(10::nat) ^ 1 \<le> 10 ^ k"
        by (intro power_increasing) simp_all
      with 1(2) True show False by simp
    qed
    with True show ?thesis by (simp add: FormatUint.simps [of n])
  next
    case False
    show ?thesis
    proof (cases k)
      case 0
      with False show ?thesis by (simp add: FormatUint.simps [of n])
    next
      case (Suc j)
      with 1(2) have "10 ^ j \<le> n div 10" by simp
      with 1(1) False have "j < length (FormatUint (n div 10))" by simp
      with False Suc show ?thesis by (simp add: FormatUint.simps [of n])
    qed
  qed
qed

lemma digit_val_digit_char: "d < 10 \<Longrightarrow> digit_val (digit_char d) = d"
proof -
  assume "d < 10"
  then have "d = 0 \<or> d = 1 \<or> d = 2 \<or> d = 3 \<or> d = 4 \<or> d = 5 \<or> d = 6 \<or> d = 7 \<or> d = 8 \<or> d = 9"
    by arith
  then show ?thesis
    by (elim disjE) (simp_all add: digit_val_def digit_char_def)
qed

lemma FormatUint_nonempty: "FormatUint n \<noteq> []"
  by (simp add: FormatUint.simps [of n])

lemma foldl_FormatUint: "foldl (\<lambda>a c. 10 * a + digit_val c) 0 (FormatUint n) = n"
proof (induction n rule: FormatUint.induct)
  case (1 n)
  show ?case
  proof (cases "n < 10")
    case True
    then show ?thesis by (simp add: FormatUint.simps [of n] digit_val_digit_char)
  next
    case False
    with 1 show ?thesis by (simp add: FormatUint.simps [of n] digit_val_digit_char)
  qed
qed

lemma ParseUint_FormatUint: "ParseUint (FormatUint n) = Some n"
  by (simp add: ParseUint_def FormatUint_nonempty FormatUint_digits foldl_FormatUint)

lemma FormatUint_no_sign: "FormatUint n = c # cs \<Longrightarrow> c \<noteq> CHR ''-''"
  using FormatUint_digits [of n] by (auto simp add: is_digit_def)

lemma Atoi_Sprintf_d: "Atoi (Sprintf_d i) = Some i"
proof (cases "i < 0")
  case True
  then show ?thesis by (simp add: Atoi_def Sprintf_d_def ParseUint_FormatUint)
next
  case False
  obtain c cs where f: "FormatUint (nat i) = c # cs"
    using FormatUint_nonempty [of "nat i"] by (cases "FormatUint (nat i)") auto
  from f have "c \<noteq> CHR ''-''" by (rule FormatUint_no_sign)
  with False f ParseUint_FormatUint [of "nat i"] show ?thesis
    by (simp add: Atoi_def Sprintf_d_def)
qed

section \<open>Which bodies decode\<close>

lemma decode_object_error:
  "snd (decode_object kvs (req, saved)) = None \<longleftrightarrow> saved = None \<and> \<not> malformed_long_url kvs"
proof (induction kvs arbitrary: req saved)
  case Nil
  show ?case by simp
next
  case (Cons kv kvs)
  obtain k v where kv: "kv = (k, v)" by (cases kv)
  show ?case
  proof (cases "equalFold k ''long_url''")
    case False
    then show ?thesis by (simp add: kv Cons.IH)
  next
    case True
    then show ?thesis
      by (cases v; cases saved) (simp_all add: kv Cons.IH is_string_or_null_def saveError_def)
  qed
qed

lemma json_Unmarshal_fails_iff:
  "(\<exists>e. json_Unmarshal env body = Inl e) \<longleftrightarrow> undecodable (json_scan env body)"
proof (cases "json_scan env body")
  case None
  then show ?thesis by (simp add: json_Unmarshal_def undecodable_def)
next
  case (Some v)
  show ?thesis
  proof (cases v)
    case (JObject kvs)
    obtain req saved where d: "decode_object kvs (\<lparr>CreateLongURL = ''''\<rparr>, None) = (req, saved)"
      by (cases "decode_object kvs (\<lparr>CreateLongURL = ''''\<rparr>, None)")
    from decode_object_error [of kvs "\<lparr>CreateLongURL = ''''\<rparr>" None] d
    have "saved = None \<longleftrightarrow> \<not> malformed_long_url kvs" by simp
    with Some JObject d show ?thesis
      by (cases saved) (simp_all add: json_Unmarshal_def undecodable_def)
  qed (use Some in \<open>simp_all add: json_Unmarshal_def undecodable_def\<close>)
qed

lemma json_Unmarshal_empty_object:
  "json_scan env body = Some (JObject []) \<Longrightarrow> json_Unmarshal env body = Inr \<lparr>CreateLongURL = ''''\<rparr>"
  by (simp add: json_Unmarshal_def)

lemma json_Unmarshal_long_url:
  assumes "json_scan env body = Some (JObject [(''long_url'', JString url)])"
  shows "json_Unmarshal env body = Inr \<lparr>CreateLongURL = url\<rparr>"
  using assms by (simp add: json_Unmarshal_def equalFold_def)

section \<open>The paths through the handlers\<close>

lemma getOriginalURL_found:
  assumes "MarshalMap_key env [(''short_url'', path_shortURL request)] = Inr key"
    and "GetItem env (db w) (GetItemInput (tableName env) key) = Inr (GetItemOutput (Some item))"
    and "UnmarshalMap env item = Inr m"
  shows "getOriginalURL env w request =
           (Return \<lparr>StatusCode = 301, Headers = [(''Location'', LongURL m)], Body = ''''\<rparr> None,
            (case fst (UpdateItem env (db w) (increment_input env key)) of
               None \<Rightarrow> (\<lambda>w. w)
             | Some e \<Rightarrow> log_Printf (''Error updating access count :'' @ e))
              (w\<lparr>db := snd (UpdateItem env (db w) (increment_input env key)),
                 calls := calls w @ [GetItemCall (GetItemInput (tableName env) key),
                                     UpdateItemCall (increment_input env key)]\<rparr>))"
  using assms
  by (simp add: getOriginalURL_def ddb_GetItem_def ddb_UpdateItem_def split: prod.splits option.splits)

lemma stored_resolve:
  assumes "stored env (db w) (path_shortURL r) = Some m"
  shows "fst (getOriginalURL env w r) =
           Return \<lparr>StatusCode = 301, Headers = [(''Location'', LongURL m)], Body = ''''\<rparr> None"
proof -
  from assms obtain key item where
    "MarshalMap_key env [(''short_url'', path_shortURL r)] = Inr key"
    "GetItem env (db w) (GetItemInput (tableName env) key) = Inr (GetItemOutput (Some item))"
    "UnmarshalMap env item = Inr m"
    by (auto simp add: stored_def split: sum.splits option.splits GetItemOutput.splits)
  from getOriginalURL_found [OF this] show ?thesis by simp
qed

lemma db_after_resolve:
  "db (snd (getOriginalURL env w r)) = db w
   \<or> db (snd (getOriginalURL env w r)) =
       snd (UpdateItem env (db w)
         (increment_input env
           (case MarshalMap_key env [(''short_url'', path_shortURL r)] of Inl e \<Rightarrow> [] | Inr k \<Rightarrow> k)))"
  by (auto simp add: getOriginalURL_def ddb_GetItem_def ddb_UpdateItem_def log_Printf_def Let_def
      split: sum.splits prod.splits option.splits GetItemOutput.splits)

lemma resolve_step:
  assumes "increment_safe env" and "stored env (db w) code = Some m"
  shows "\<exists>m'. stored env (db (snd (getOriginalURL env w r))) code = Some m'
            \<and> LongURL m' = LongURL m \<and> AccessCount m \<le> AccessCount m'"
  using db_after_resolve [of env w r]
proof
  assume "db (snd (getOriginalURL env w r)) = db w"
  with assms(2) show ?thesis by simp
next
  assume "db (snd (getOriginalURL env w r)) =
       snd (UpdateItem env (db w)
         (increment_input env
           (case MarshalMap_key env [(''short_url'', path_shortURL r)] of Inl e \<Rightarrow> [] | Inr k \<Rightarrow> k)))"
  with assms show ?thesis unfolding increment_safe_def by metis
qed

lemma resolve_all_keeps:
  assumes "increment_safe env" and "stored env (db w) code = Some m"
  shows "\<exists>m'. stored env (db (resolve_all env w rs)) code = Some m'
            \<and> LongURL m' = LongURL m \<and> AccessCount m \<le> AccessCount m'"
  using assms(2)
proof (induction rs arbitrary: w m)
  case Nil
  then show ?case by simp
next
  case (Cons r rs)
  from resolve_step [OF assms(1) Cons.prems, of r] obtain m1 where
    s1: "stored env (db (snd (getOriginalURL env w r))) code = Some m1"
    and u1: "LongURL m1 = LongURL m" and c1: "AccessCount m \<le> AccessCount m1"
    by blast
  from Cons.IH [OF s1] obtain m' where
    "stored env (db (resolve_all env (snd (getOriginalURL env w r)) rs)) code = Some m'"
    "LongURL m' = LongURL m1" "AccessCount m1 \<le> AccessCount m'"
    by blast
  with u1 c1 show ?case by auto
qed

lemma generateShortURL_db:
  "generateShortURL env w = (r, w1) \<Longrightarrow> db w1 = db w \<and> calls w1 = calls w \<and> ticks w1 = Suc (ticks w)"
  by (auto simp add: generateShortURL_def time_Now_def)

lemma create_201:
  assumes "createShortURL env w request = (Return resp err, w')"
    and "StatusCode resp = 201"
  obtains cr code w1 item where
    "json_Unmarshal env (RequestBody request) = Inr cr"
    "generateShortURL env w = (Some code, w1)"
    "MarshalMap env \<lparr>ShortURL = code, LongURL = CreateLongURL cr,
                      CreatedAt = clock env (ticks w1), AccessCount = 0\<rparr> = Inr item"
    "PutItem env (db w) (PutItemInput (tableName env) item) = (None, db w')"
    "calls w' = calls w @ [PutItemCall (PutItemInput (tableName env) item)]"
    "err = None"
    "Body resp = json_Marshal env \<lparr>ShortURL = code, LongURL = CreateLongURL cr,
                      CreatedAt = clock env (ticks w1), AccessCount = 0\<rparr>"
proof (cases "json_Unmarshal env (RequestBody request)")
  case (Inl e)
  with assms show ?thesis by (auto simp add: createShortURL_def)
next
  case (Inr cr)
  obtain r w1 where g: "generateShortURL env w = (r, w1)"
    by (cases "generateShortURL env w")
  note frame = generateShortURL_db [OF g]
  show ?thesis
  proof (cases r)
    case None
    with assms Inr g show ?thesis by (auto simp add: createShortURL_def)
  next
    case (Some code)
    let ?m = "\<lparr>ShortURL = code, LongURL = CreateLongURL cr,
               CreatedAt = clock env (ticks w1), AccessCount = 0\<rparr>"
    show ?thesis
    proof (cases "MarshalMap env ?m")
      case (Inl e)
      with assms Inr g Some show ?thesis
        by (auto simp add: createShortURL_def time_Now_def)
    next
      case marshal: (Inr item)
      obtain perr d' where p: "PutItem env (db w) (PutItemInput (tableName env) item) = (perr, d')"
        by (cases "PutItem env (db w) (PutItemInput (tableName env) item)")
      show ?thesis
      proof (cases perr)
        case (Some e)
        with assms Inr g \<open>r = Some code\<close> marshal p frame show ?thesis
          by (auto simp add: createShortURL_def time_Now_def ddb_PutItem_def)
      next
        case None
        with assms Inr g \<open>r = Some code\<close> marshal p frame
        have "d' = db w'" "calls w' = calls w @ [PutItemCall (PutItemInput (tableName env) item)]"
          "err = None" "Body resp = json_Marshal env ?m"
          by (auto simp add: createShortURL_def time_Now_def ddb_PutItem_def)
        with that [OF Inr _ marshal] g \<open>r = Some code\<close> p None show ?thesis by simp
      qed
    qed
  qed
qed

lemma create_ok_status:
  assumes "json_Unmarshal env (RequestBody request) = Inr cr"
    and "createShortURL env w request = (Return resp None, w')"
  shows "StatusCode resp = 201"
  using assms
  by (auto simp add: createShortURL_def time_Now_def ddb_PutItem_def Let_def
      split: sum.splits prod.splits option.splits)

section \<open>The reference environment at work\<close>

lemma mem_env_fields:
  "tableName mem_env = ''url-shortener''"
  "clock mem_env = (\<lambda>n. 1700000000123456789 + 1000 * word_of_nat n)"
  "json_scan mem_env = mem_json_scan"
  "json_Marshal mem_env = mem_json_Marshal"
  "MarshalMap mem_env = mem_MarshalMap"
  "MarshalMap_key mem_env = mem_MarshalMap_key"
  "UnmarshalMap mem_env = mem_UnmarshalMap"
  "PutItem mem_env = mem_PutItem"
  "GetItem mem_env = mem_GetItem"
  "UpdateItem mem_env = mem_UpdateItem"
  by (simp_all add: mem_env_def)

lemma world0_fields:
  "db world0 = []" "calls world0 = []" "logs world0 = []" "ticks world0 = 0"
  by (simp_all add: world0_def)

lemma no_marshal_env_fields:
  "json_scan no_marshal_env = mem_json_scan"
  "clock no_marshal_env = clock mem_env"
  "MarshalMap no_marshal_env = (\<lambda>m. Inl ''marshal failed'')"
  by (simp_all add: no_marshal_env_def mem_env_def)

lemma counting_env_fields:
  "tableName counting_env = ''url-shortener''"
  "MarshalMap_key counting_env = mem_MarshalMap_key"
  "UnmarshalMap counting_env = mem_UnmarshalMap"
  "GetItem counting_env = mem_GetItem"
  "UpdateItem counting_env = counting_UpdateItem"
  by (simp_all add: counting_env_def mem_env_def)

lemma key_of_short_url: "key_of [(''short_url'', AttributeValueMemberS (c # cs))] = Some (c # cs)"
  by (simp add: key_of_def)

lemma Sprintf_d_zero: "Sprintf_d 0 = ''0''"
  by (simp add: Sprintf_d_def FormatUint.simps digit_char_def)

lemma Sprintf_d_one: "Sprintf_d 1 = ''1''"
  by (simp add: Sprintf_d_def FormatUint.simps digit_char_def)

lemma Sprintf_d_two: "Sprintf_d 2 = ''2''"
  by (simp add: Sprintf_d_def FormatUint.simps digit_char_def)

lemma Sprintf_d_first: "Sprintf_d 1700000000123456789 = ''1700000000123456789''"
  by (simp add: Sprintf_d_def FormatUint.simps digit_char_def)

lemma Sprintf_d_second: "Sprintf_d 1700000000123457789 = ''1700000000123457789''"
  by (simp add: Sprintf_d_def FormatUint.simps digit_char_def)

lemma Atoi_zero: "Atoi ''0'' = Some 0"
  by (simp add: Atoi_def ParseUint_def is_digit_def digit_val_def)

lemma Atoi_one: "Atoi ''1'' = Some 1"
  by (simp add: Atoi_def ParseUint_def is_digit_def digit_val_def)

lemma Atoi_two: "Atoi ''2'' = Some 2"
  by (simp add: Atoi_def ParseUint_def is_digit_def digit_val_def)

lemma Atoi_second: "Atoi ''1700000000123457789'' = Some 1700000000123457789"
  by (simp add: Atoi_def ParseUint_def is_digit_def digit_val_def)

lemma mem_scan_empty_object: "mem_json_scan ''{}'' = Some (JObject [])"
  by code_simp

lemma mem_scan_example:
  \<open>mem_json_scan ''{"long_url":"https://example.com"}'' =
     Some (JObject [(''long_url'', JString ''https://example.com'')])\<close>
  by code_simp

lemma mem_scan_number: \<open>mem_json_scan ''{"long_url": 5}'' = Some (JObject [(''long_url'', JNumber ''5'')])\<close>
  by code_simp

lemma mem_scan_garbage: "mem_json_scan ''not json'' = None"
  by code_simp

lemma json_Unmarshal_example:
  \<open>json_Unmarshal mem_env ''{"long_url":"https://example.com"}'' =
     Inr \<lparr>CreateLongURL = ''https://example.com''\<rparr>\<close>
  by (rule json_Unmarshal_long_url) (simp add: mem_env_fields mem_scan_example)

lemma generateShortURL_example:
  "generateShortURL mem_env world0 = (Some ''17000000'', world0\<lparr>ticks := Suc 0\<rparr>)"
  by (simp add: generateShortURL_def time_Now_def mem_env_fields world0_fields Sprintf_d_first
      slice_to_def)

lemma generateShortURL_no_marshal:
  "generateShortURL no_marshal_env world0 = (Some ''17000000'', world0\<lparr>ticks := Suc 0\<rparr>)"
  using generateShortURL_example
  by (simp add: generateShortURL_def time_Now_def no_marshal_env_fields)

lemma mem_json_Marshal_empty:
  \<open>mem_json_Marshal \<lparr>ShortURL = ''17000000'', LongURL = '''',
       CreatedAt = 1700000000123457789, AccessCount = 0\<rparr> =
     ''{"short_url":"17000000","long_url":"","created_at":"1700000000123457789","access_count":0}''\<close>
  by (simp add: mem_json_Marshal_def escape_json_def dquote_def backslash_def Sprintf_d_second
      Sprintf_d_zero)

lemma mem_json_Marshal_example:
  \<open>mem_json_Marshal \<lparr>ShortURL = ''17000000'', LongURL = ''https://example.com'',
       CreatedAt = 1700000000123457789, AccessCount = 0\<rparr> =
     ''{"short_url":"17000000","long_url":"https://example.com","created_at":"1700000000123457789","access_count":0}''\<close>
  by (simp add: mem_json_Marshal_def escape_json_def dquote_def backslash_def Sprintf_d_second
      Sprintf_d_zero)

lemma create_on_mem_env:
  assumes "json_Unmarshal mem_env body = Inr cr"
  shows "createShortURL mem_env world0 (post body) =
           (Return \<lparr>StatusCode = 201, Headers = [(''Content-Type'', ''application/json'')],
                    Body = mem_json_Marshal
                      \<lparr>ShortURL = ''17000000'', LongURL = CreateLongURL cr,
                       CreatedAt = 1700000000123457789, AccessCount = 0\<rparr>\<rparr> None,
            \<lparr>db = [(''17000000'',
                     [(''short_url'', AttributeValueMemberS ''17000000''),
                      (''long_url'', AttributeValueMemberS (CreateLongURL cr)),
                      (''created_at'', AttributeValueMemberS ''1700000000123457789''),
                      (''access_count'', AttributeValueMemberN ''0'')])],
             calls = [PutItemCall (PutItemInput ''url-shortener''
                     [(''short_url'', AttributeValueMemberS ''17000000''),
                      (''long_url'', AttributeValueMemberS (CreateLongURL cr)),
                      (''created_at'', AttributeValueMemberS ''1700000000123457789''),
                      (''access_count'', AttributeValueMemberN ''0'')])],
             logs = [], ticks = 2\<rparr>)"
  using assms
  by (simp add: createShortURL_def generateShortURL_example [unfolded world0_def] time_Now_def mem_env_fields
      mem_MarshalMap_def ddb_PutItem_def key_of_def Sprintf_d_second Sprintf_d_zero world0_def
      post_def)

lemma create_example:
  \<open>createShortURL mem_env world0 (post ''{"long_url":"https://example.com"}'') =
     (Return \<lparr>StatusCode = 201, Headers = [(''Content-Type'', ''application/json'')],
              Body = mem_json_Marshal
                \<lparr>ShortURL = ''17000000'', LongURL = ''https://example.com'',
                 CreatedAt = 1700000000123457789, AccessCount = 0\<rparr>\<rparr> None,
      world1)\<close>
  using create_on_mem_env [OF json_Unmarshal_example]
  by (simp add: world1_def example_item_def)

lemma mem_UnmarshalMap_example:
  "mem_UnmarshalMap example_item =
     Inr \<lparr>ShortURL = ''17000000'', LongURL = ''https://example.com'',
          CreatedAt = 1700000000123457789, AccessCount = 0\<rparr>"
  by (simp add: mem_UnmarshalMap_def example_item_def attr_string_def attr_int_def attr_time_def
      Atoi_second Atoi_zero)


lemma stored_example:
  "stored mem_env (db world1) ''17000000'' =
     Some \<lparr>ShortURL = ''17000000'', LongURL = ''https://example.com'',
           CreatedAt = 1700000000123457789, AccessCount = 0\<rparr>"
  by (simp add: stored_def mem_env_fields world1_def mem_MarshalMap_key_def key_of_short_url
      mem_UnmarshalMap_example)

lemma mem_codec_roundtrip: "mem_MarshalMap m = Inr item \<Longrightarrow> mem_UnmarshalMap item = Inr m"
  by (auto simp add: mem_MarshalMap_def mem_UnmarshalMap_def attr_string_def attr_int_def
      attr_time_def Atoi_Sprintf_d)

lemma read_your_write_mem_env: "read_your_write mem_env"
  unfolding read_your_write_def
proof (intro allI impI, elim conjE)
  fix d d' m item
  assume marshal: "MarshalMap mem_env m = Inr item"
    and put: "PutItem mem_env d (PutItemInput (tableName mem_env) item) = (None, d')"
  from marshal have k: "key_of item = (if ShortURL m = [] then None else Some (ShortURL m))"
    by (auto simp add: mem_env_fields mem_MarshalMap_def key_of_def)
  from put k have ne: "ShortURL m \<noteq> []" and d': "d' = (ShortURL m, item) # d"
    by (auto simp add: mem_env_fields split: if_splits)
  from marshal have "mem_UnmarshalMap item = Inr m"
    by (simp add: mem_env_fields mem_codec_roundtrip)
  with ne d' have "stored mem_env d' (ShortURL m) = Some m"
    by (simp add: stored_def mem_env_fields mem_MarshalMap_key_def key_of_def)
  then show "\<exists>m'. stored mem_env d' (ShortURL m) = Some m' \<and> LongURL m' = LongURL m"
    by simp
qed

lemma increment_safe_mem_env: "increment_safe mem_env"
  by (simp add: increment_safe_def mem_env_fields increment_input_def)

lemma map_of_bump_item:
  "map_of (bump_item item) n =
     (if n = ''access_count'' then map_option bump (map_of item n) else map_of item n)"
  by (induction item) (auto simp add: bump_item_def)

lemma attr_string_bump:
  "n \<noteq> ''access_count'' \<Longrightarrow> attr_string (bump_item item) n = attr_string item n"
  by (simp add: attr_string_def map_of_bump_item)

lemma attr_time_bump:
  "n \<noteq> ''access_count'' \<Longrightarrow> attr_time (bump_item item) n = attr_time item n"
  by (simp add: attr_time_def map_of_bump_item)

lemma attr_int_bump:
  assumes "attr_int item ''access_count'' = Inr i"
  shows "\<exists>j. attr_int (bump_item item) ''access_count'' = Inr j \<and> i \<le> j"
  using assms
  by (auto simp add: attr_int_def map_of_bump_item bump_def Atoi_Sprintf_d
      split: option.splits AttributeValue.splits)

lemma mem_UnmarshalMap_bump:
  assumes "mem_UnmarshalMap item = Inr m"
  shows "\<exists>m'. mem_UnmarshalMap (bump_item item) = Inr m'
            \<and> LongURL m' = LongURL m \<and> AccessCount m \<le> AccessCount m'"
proof -
  from assms obtain s l t i where
    "attr_string item ''short_url'' = Inr s" "attr_string item ''long_url'' = Inr l"
    "attr_time item ''created_at'' = Inr t" and i: "attr_int item ''access_count'' = Inr i"
    and m: "m = \<lparr>ShortURL = s, LongURL = l, CreatedAt = t, AccessCount = i\<rparr>"
    by (auto simp add: mem_UnmarshalMap_def split: sum.splits)
  moreover from attr_int_bump [OF i] obtain j where
    "attr_int (bump_item item) ''access_count'' = Inr j" "i \<le> j" by blast
  ultimately show ?thesis
    by (simp add: mem_UnmarshalMap_def attr_string_bump attr_time_bump)
qed

lemma stored_counting:
  "stored counting_env d code =
     (if code = [] then None
      else case map_of d code of
             None \<Rightarrow> None
           | Some item \<Rightarrow> (case mem_UnmarshalMap item of Inl e \<Rightarrow> None | Inr m \<Rightarrow> Some m))"
  by (simp add: stored_def counting_env_fields mem_MarshalMap_key_def key_of_def
      split: option.splits)

lemma increment_safe_counting_env: "increment_safe counting_env"
  unfolding increment_safe_def
proof (intro allI impI)
  fix d key code m
  assume s: "stored counting_env d code = Some m"
  then obtain item where ne: "code \<noteq> []" and it: "map_of d code = Some item"
    and um: "mem_UnmarshalMap item = Inr m"
    by (auto simp add: stored_counting split: if_splits option.splits sum.splits)
  let ?d' = "snd (UpdateItem counting_env d (increment_input counting_env key))"
  show "\<exists>m'. stored counting_env ?d' code = Some m' \<and> LongURL m' = LongURL m
              \<and> AccessCount m \<le> AccessCount m'"
  proof (cases "key_of key")
    case None
    with s show ?thesis by (simp add: counting_env_fields increment_input_def)
  next
    case (Some k)
    show ?thesis
    proof (cases "map_of d k")
      case None
      with Some s show ?thesis by (simp add: counting_env_fields increment_input_def)
    next
      case found: (Some item_k)
      with Some have d': "?d' = (k, bump_item item_k) # d"
        by (simp add: counting_env_fields increment_input_def)
      show ?thesis
      proof (cases "k = code")
        case True
        with found it have "item_k = item" by simp
        with mem_UnmarshalMap_bump [OF um] True ne d' show ?thesis
          by (auto simp add: stored_counting)
      next
        case False
        with d' ne it um show ?thesis by (simp add: stored_counting)
      qed
    qed
  qed
qed

lemma stored_counting_example:
  "stored counting_env (db world1) ''17000000'' =
     Some \<lparr>ShortURL = ''17000000'', LongURL = ''https://example.com'',
           CreatedAt = 1700000000123457789, AccessCount = 0\<rparr>"
  by (simp add: stored_counting world1_def mem_UnmarshalMap_example)

lemma counting_twice:
  "stored counting_env
     (db (resolve_all counting_env world1 [get_code ''17000000'', get_code ''17000000'']))
     ''17000000'' =
   Some \<lparr>ShortURL = ''17000000'', LongURL = ''https://example.com'',
         CreatedAt = 1700000000123457789, AccessCount = 2\<rparr>"
  by (simp add: stored_counting getOriginalURL_def ddb_GetItem_def ddb_UpdateItem_def
      counting_env_fields increment_input_def path_shortURL_def get_code_def world1_def
      mem_MarshalMap_key_def key_of_def mem_UnmarshalMap_def attr_string_def attr_int_def
      attr_time_def example_item_def bump_item_def bump_def Atoi_zero Atoi_one Atoi_two
      Atoi_second Sprintf_d_one Sprintf_d_two Let_def)

section \<open>Create, then Resolve\<close>

text \<open>
  Claim C1. Let the store and the codec read back what was written. When the body is
  the object with the one member \<open>long_url\<close> holding the string \<open>url\<close>, and Create
  returns with a nil error, then the status is 201, the body is the JSON of a record
  with that long URL, and every Resolve request for that record's short code, made in
  the world Create left, returns 301 with \<open>Location\<close> equal to \<open>url\<close>.
\<close>

theorem create_then_resolve:
  assumes "read_your_write env"
    and "json_scan env (RequestBody request) = Some (JObject [(''long_url'', JString url)])"
    and "createShortURL env w request = (Return resp None, w')"
  shows "\<exists>m. StatusCode resp = 201 \<and> Body resp = json_Marshal env m \<and> LongURL m = url
           \<and> (\<forall>r. path_shortURL r = ShortURL m \<longrightarrow>
                  fst (getOriginalURL env w' r) =
                    Return \<lparr>StatusCode = 301, Headers = [(''Location'', url)], Body = ''''\<rparr> None)"
proof -
  have dec: "json_Unmarshal env (RequestBody request) = Inr \<lparr>CreateLongURL = url\<rparr>"
    using assms(2) by (rule json_Unmarshal_long_url)
  have st: "StatusCode resp = 201"
    using dec assms(3) by (rule create_ok_status)
  from assms(3) st obtain cr code w1 item where
    cr: "json_Unmarshal env (RequestBody request) = Inr cr"
    and "generateShortURL env w = (Some code, w1)"
    and marshal: "MarshalMap env \<lparr>ShortURL = code, LongURL = CreateLongURL cr,
                      CreatedAt = clock env (ticks w1), AccessCount = 0\<rparr> = Inr item"
    and put: "PutItem env (db w) (PutItemInput (tableName env) item) = (None, db w')"
    and "calls w' = calls w @ [PutItemCall (PutItemInput (tableName env) item)]"
    and "None = (None :: error option)"
    and body: "Body resp = json_Marshal env \<lparr>ShortURL = code, LongURL = CreateLongURL cr,
                      CreatedAt = clock env (ticks w1), AccessCount = 0\<rparr>"
    by (rule create_201)
  from cr dec have url: "CreateLongURL cr = url" by auto
  let ?m = "\<lparr>ShortURL = code, LongURL = CreateLongURL cr,
             CreatedAt = clock env (ticks w1), AccessCount = 0\<rparr>"
  from assms(1) marshal put have "\<exists>m'. stored env (db w') (ShortURL ?m) = Some m' \<and> LongURL m' = LongURL ?m"
    unfolding read_your_write_def by blast
  then obtain m' where rd: "stored env (db w') code = Some m'" and u: "LongURL m' = url"
    using url by auto
  have "\<forall>r. path_shortURL r = ShortURL ?m \<longrightarrow>
          fst (getOriginalURL env w' r) =
            Return \<lparr>StatusCode = 301, Headers = [(''Location'', url)], Body = ''''\<rparr> None"
    using rd u stored_resolve [of env w'] by auto
  with st body url show ?thesis
    by (intro exI [of _ ?m]) simp
qed

theorem create_then_resolve_witness:
  \<open>fst (createShortURL mem_env world0 (post ''{"long_url":"https://example.com"}'')) =
     Return \<lparr>StatusCode = 201, Headers = [(''Content-Type'', ''application/json'')],
       Body = ''{"short_url":"17000000","long_url":"https://example.com","created_at":"1700000000123457789","access_count":0}''\<rparr> None
   \<and> (\<exists>m. LongURL m = ''https://example.com''
         \<and> mem_json_Marshal m = ''{"short_url":"17000000","long_url":"https://example.com","created_at":"1700000000123457789","access_count":0}''
         \<and> fst (getOriginalURL mem_env
                 (snd (createShortURL mem_env world0 (post ''{"long_url":"https://example.com"}'')))
                 (get_code (ShortURL m))) =
             Return \<lparr>StatusCode = 301, Headers = [(''Location'', ''https://example.com'')],
                     Body = ''''\<rparr> None)\<close>
proof -
  have scan: \<open>json_scan mem_env (RequestBody (post ''{"long_url":"https://example.com"}'')) =
      Some (JObject [(''long_url'', JString ''https://example.com'')])\<close>
    by (simp add: post_def mem_env_fields mem_scan_example)
  from create_then_resolve [OF read_your_write_mem_env scan create_example]
  obtain m where m: "LongURL m = ''https://example.com''"
    \<open>mem_json_Marshal m = ''{"short_url":"17000000","long_url":"https://example.com","created_at":"1700000000123457789","access_count":0}''\<close>
    "\<forall>r. path_shortURL r = ShortURL m \<longrightarrow>
       fst (getOriginalURL mem_env world1 r) =
         Return \<lparr>StatusCode = 301, Headers = [(''Location'', ''https://example.com'')],
                 Body = ''''\<rparr> None"
    by (auto simp add: mem_env_fields mem_json_Marshal_example)
  have "path_shortURL (get_code (ShortURL m)) = ShortURL m"
    by (simp add: path_shortURL_def get_code_def)
  with m show ?thesis
    by (auto simp add: create_example mem_json_Marshal_example)
qed

section \<open>Bodies that Create refuses\<close>

text \<open>
  Claim C2, amended. When the body does not scan as JSON, or is a value other than an
  object or \<open>null\<close>, or is an object with a \<open>long_url\<close> member that is neither a string
  nor \<open>null\<close>, Create returns 400 "Invalid request body" with a nil error and leaves the
  world as it was: nothing is sent to the table.
\<close>

theorem create_bad_request:
  assumes "undecodable (json_scan env (RequestBody request))"
  shows "createShortURL env w request =
           (Return \<lparr>StatusCode = 400, Headers = [], Body = ''Invalid request body''\<rparr> None, w)"
proof -
  from assms obtain e where "json_Unmarshal env (RequestBody request) = Inl e"
    using json_Unmarshal_fails_iff by blast
  then show ?thesis by (simp add: createShortURL_def)
qed

theorem create_bad_request_witness:
  \<open>createShortURL mem_env world0 (post ''{"long_url": 5}'') =
     (Return \<lparr>StatusCode = 400, Headers = [], Body = ''Invalid request body''\<rparr> None, world0)
   \<and> createShortURL mem_env world0 (post ''not json'') =
     (Return \<lparr>StatusCode = 400, Headers = [], Body = ''Invalid request body''\<rparr> None, world0)\<close>
  using create_bad_request [of mem_env \<open>post ''{"long_url": 5}''\<close> world0]
    create_bad_request [of mem_env "post ''not json''" world0]
  by (simp add: post_def mem_env_fields mem_scan_number mem_scan_garbage undecodable_def
      equalFold_def is_string_or_null_def)

theorem create_missing_long_url_counterexample:
  \<open>mem_json_scan ''{}'' = Some (JObject [])
   \<and> fst (createShortURL mem_env world0 (post ''{}'')) =
       Return \<lparr>StatusCode = 201, Headers = [(''Content-Type'', ''application/json'')],
         Body = ''{"short_url":"17000000","long_url":"","created_at":"1700000000123457789","access_count":0}''\<rparr> None
   \<and> calls (snd (createShortURL mem_env world0 (post ''{}''))) =
       [PutItemCall (PutItemInput ''url-shortener''
          [(''short_url'', AttributeValueMemberS ''17000000''),
           (''long_url'', AttributeValueMemberS ''''),
           (''created_at'', AttributeValueMemberS ''1700000000123457789''),
           (''access_count'', AttributeValueMemberN ''0'')])]\<close>
  using create_on_mem_env [of "''{}''" "\<lparr>CreateLongURL = ''''\<rparr>"]
  by (simp add: json_Unmarshal_empty_object mem_env_fields mem_scan_empty_object
      mem_json_Marshal_empty)

section \<open>The counter update is best effort\<close>

text \<open>
  Claim C3. When the table holds a record for the short code, Resolve sends one update
  request for that key, with the expression \<open>SET access_count + :inc\<close> and \<open>:inc\<close> bound
  to the number 1, after the read. Whatever the table answers (\<open>upd\<close> is its answer), the
  response is the 301 redirect to the record's long URL with a nil error; an error of the
  update only adds one line to the log.
\<close>

theorem resolve_increment_best_effort:
  assumes "MarshalMap_key env [(''short_url'', path_shortURL request)] = Inr key"
    and "GetItem env (db w) (GetItemInput (tableName env) key) = Inr (GetItemOutput (Some item))"
    and "UnmarshalMap env item = Inr m"
    and "upd = UpdateItem env (db w)
           (UpdateItemInput (tableName env) key ''SET access_count + :inc''
              [('':inc'', AttributeValueMemberN ''1'')])"
  shows "fst (getOriginalURL env w request) =
           Return \<lparr>StatusCode = 301, Headers = [(''Location'', LongURL m)], Body = ''''\<rparr> None
         \<and> calls (snd (getOriginalURL env w request)) =
             calls w @ [GetItemCall (GetItemInput (tableName env) key),
                        UpdateItemCall (UpdateItemInput (tableName env) key ''SET access_count + :inc''
                          [('':inc'', AttributeValueMemberN ''1'')])]
         \<and> db (snd (getOriginalURL env w request)) = snd upd
         \<and> logs (snd (getOriginalURL env w request)) =
             logs w @ (case fst upd of None \<Rightarrow> [] | Some e \<Rightarrow> [''Error updating access count :'' @ e])"
  using getOriginalURL_found [OF assms(1-3)] assms(4)
  by (simp add: increment_input_def log_Printf_def split: option.splits)

theorem resolve_increment_best_effort_witness:
  "fst (getOriginalURL mem_env world1 (get_code ''17000000'')) =
     Return \<lparr>StatusCode = 301, Headers = [(''Location'', ''https://example.com'')], Body = ''''\<rparr> None
   \<and> db (snd (getOriginalURL mem_env world1 (get_code ''17000000''))) = [(''17000000'', example_item)]
   \<and> logs (snd (getOriginalURL mem_env world1 (get_code ''17000000''))) =
       [''Error updating access count :ValidationException: Invalid UpdateExpression: Syntax error'']"
  using resolve_increment_best_effort [of mem_env "get_code ''17000000''"
      "[(''short_url'', AttributeValueMemberS ''17000000'')]" world1 example_item
      "\<lparr>ShortURL = ''17000000'', LongURL = ''https://example.com'',
        CreatedAt = 1700000000123457789, AccessCount = 0\<rparr>"
      "(Some ''ValidationException: Invalid UpdateExpression: Syntax error'', [(''17000000'', example_item)])"]
  by (simp add: mem_env_fields world1_def get_code_def path_shortURL_def
      mem_MarshalMap_key_def key_of_short_url mem_UnmarshalMap_example)

section \<open>The short code\<close>

text \<open>
  Claim C4, amended. When the clock reads at least 10,000,000 nanoseconds after the Unix
  epoch (true of every time from 1970-01-01T00:00:00.01Z on), \<open>generateShortURL\<close> returns
  the first 8 characters of the decimal rendering of that reading, and they are 8
  decimal digits.
\<close>

theorem generateShortURL_eight_digits:
  assumes "10000000 \<le> sint (clock env (ticks w))"
  shows "\<exists>code. fst (generateShortURL env w) = Some code
           \<and> code = take 8 (Sprintf_d (sint (clock env (ticks w))))
           \<and> length code = 8 \<and> list_all is_digit code"
proof -
  let ?t = "sint (clock env (ticks w))"
  have fmt: "Sprintf_d ?t = FormatUint (nat ?t)"
    using assms by (simp add: Sprintf_d_def)
  have "10 ^ 7 \<le> nat ?t" using assms by simp
  then have len: "7 < length (FormatUint (nat ?t))" by (rule FormatUint_length)
  have "list_all is_digit (take 8 (FormatUint (nat ?t)))"
    using FormatUint_digits [of "nat ?t"] by (auto simp add: list_all_iff dest: in_set_takeD)
  with len fmt show ?thesis
    by (simp add: generateShortURL_def time_Now_def slice_to_def)
qed

theorem generateShortURL_eight_digits_witness:
  "fst (generateShortURL mem_env world0) = Some ''17000000''
   \<and> length ''17000000'' = 8 \<and> list_all is_digit ''17000000''"
  using generateShortURL_eight_digits [of mem_env world0]
  by (simp add: mem_env_fields world0_fields Sprintf_d_first)

theorem generateShortURL_counterexample:
  "fst (generateShortURL epoch_env world0) = None
   \<and> fst (generateShortURL before_epoch_env world0) = Some ''-1700000''"
  by (simp add: generateShortURL_def time_Now_def epoch_env_def before_epoch_env_def
      Sprintf_d_def FormatUint.simps digit_char_def slice_to_def)

section \<open>The router\<close>

text \<open>
  Claim C5. The router hands a POST request to the Create handler and a GET request to the
  Resolve handler, whatever they then do; for every other method it answers 405
  "Method not allowed" with a nil error and leaves the world as it was: no request is
  sent to the table, nothing is logged, the clock is not read.
\<close>

theorem handleRequest_dispatch:
  "(HTTPMethod request = ''POST'' \<longrightarrow> handleRequest env w request = createShortURL env w request)
   \<and> (HTTPMethod request = ''GET'' \<longrightarrow> handleRequest env w request = getOriginalURL env w request)
   \<and> (HTTPMethod request \<noteq> ''POST'' \<and> HTTPMethod request \<noteq> ''GET'' \<longrightarrow>
        handleRequest env w request =
          (Return \<lparr>StatusCode = 405, Headers = [], Body = ''Method not allowed''\<rparr> None, w))"
  by (simp add: handleRequest_def)

theorem handleRequest_dispatch_witness:
  "handleRequest mem_env world0 (post ''{}'') = createShortURL mem_env world0 (post ''{}'')
   \<and> handleRequest mem_env world0 (get_code ''17000000'') = getOriginalURL mem_env world0 (get_code ''17000000'')
   \<and> handleRequest mem_env world0 ((post ''{}'')\<lparr>HTTPMethod := ''DELETE''\<rparr>) =
         (Return \<lparr>StatusCode = 405, Headers = [], Body = ''Method not allowed''\<rparr> None, world0)"
  using handleRequest_dispatch [of "post ''{}''" mem_env world0]
    handleRequest_dispatch [of "get_code ''17000000''" mem_env world0]
    handleRequest_dispatch [of "(post ''{}'')\<lparr>HTTPMethod := ''DELETE''\<rparr>" mem_env world0]
  by (simp add: post_def get_code_def)

section \<open>A short code with no record\<close>

text \<open>
  Claim C6. When the key of the short code marshals and the table holds no item under
  it, Resolve returns 404 "URL not found" with a nil error; the only change to the world
  is the record of the one read: the table and the log are as before.
\<close>

theorem resolve_absent_not_found:
  assumes "MarshalMap_key env [(''short_url'', path_shortURL request)] = Inr key"
    and "GetItem env (db w) (GetItemInput (tableName env) key) = Inr (GetItemOutput None)"
  shows "getOriginalURL env w request =
           (Return \<lparr>StatusCode = 404, Headers = [], Body = ''URL not found''\<rparr> None,
            w\<lparr>calls := calls w @ [GetItemCall (GetItemInput (tableName env) key)]\<rparr>)"
  using assms by (simp add: getOriginalURL_def ddb_GetItem_def)

theorem resolve_absent_not_found_witness:
  "getOriginalURL mem_env world0 (get_code ''00000000'') =
     (Return \<lparr>StatusCode = 404, Headers = [], Body = ''URL not found''\<rparr> None,
      world0\<lparr>calls := [GetItemCall (GetItemInput ''url-shortener''
                 [(''short_url'', AttributeValueMemberS ''00000000'')])]\<rparr>)"
  using resolve_absent_not_found [of mem_env "get_code ''00000000''"
      "[(''short_url'', AttributeValueMemberS ''00000000'')]" world0]
  by (simp add: mem_env_fields world0_fields get_code_def path_shortURL_def
      mem_MarshalMap_key_def key_of_short_url)

section \<open>The redirect\<close>



section \<open>The counter over repeated Resolve calls\<close>

text \<open>
  Claim C8. A record that Create stored (status 201) has \<open>access_count\<close> 0: it is the
  record whose marshalled item was put and whose JSON is the response body. And when the
  store never lowers a counter nor changes a long URL on the update request Resolve
  sends, then after any run of Resolve requests a record of the table is still there with
  the same long URL and a counter that is not below the one it had, and a Resolve of its
  short code redirects to that long URL.
\<close>

theorem access_count_monotone:
  "(createShortURL env w request = (Return resp err, w') \<and> StatusCode resp = 201 \<longrightarrow>
      (\<exists>m item. AccessCount m = 0 \<and> MarshalMap env m = Inr item
          \<and> Body resp = json_Marshal env m
          \<and> calls w' = calls w @ [PutItemCall (PutItemInput (tableName env) item)]))
   \<and> (increment_safe env \<and> stored env (db w) code = Some m \<longrightarrow>
      (\<exists>m'. stored env (db (resolve_all env w rs)) code = Some m'
          \<and> LongURL m' = LongURL m \<and> AccessCount m \<le> AccessCount m'
          \<and> (\<forall>r. path_shortURL r = code \<longrightarrow>
                 fst (getOriginalURL env (resolve_all env w rs) r) =
                   Return \<lparr>StatusCode = 301, Headers = [(''Location'', LongURL m)],
                           Body = ''''\<rparr> None)))"
proof (intro conjI impI)
  assume "createShortURL env w request = (Return resp err, w') \<and> StatusCode resp = 201"
  then have c: "createShortURL env w request = (Return resp err, w')" and s: "StatusCode resp = 201"
    by simp_all
  from c s obtain cr code1 w1 item where
    "json_Unmarshal env (RequestBody request) = Inr cr"
    and "generateShortURL env w = (Some code1, w1)"
    and marshal: "MarshalMap env \<lparr>ShortURL = code1, LongURL = CreateLongURL cr,
                      CreatedAt = clock env (ticks w1), AccessCount = 0\<rparr> = Inr item"
    and "PutItem env (db w) (PutItemInput (tableName env) item) = (None, db w')"
    and sent: "calls w' = calls w @ [PutItemCall (PutItemInput (tableName env) item)]"
    and "err = None"
    and body: "Body resp = json_Marshal env \<lparr>ShortURL = code1, LongURL = CreateLongURL cr,
                      CreatedAt = clock env (ticks w1), AccessCount = 0\<rparr>"
    by (rule create_201)
  let ?m = "\<lparr>ShortURL = code1, LongURL = CreateLongURL cr,
             CreatedAt = clock env (ticks w1), AccessCount = 0\<rparr>"
  have "AccessCount ?m = 0 \<and> MarshalMap env ?m = Inr item \<and> Body resp = json_Marshal env ?m
          \<and> calls w' = calls w @ [PutItemCall (PutItemInput (tableName env) item)]"
    using marshal sent body by simp
  then show "\<exists>m item. AccessCount m = 0 \<and> MarshalMap env m = Inr item
          \<and> Body resp = json_Marshal env m
          \<and> calls w' = calls w @ [PutItemCall (PutItemInput (tableName env) item)]"
    by blast
next
  assume "increment_safe env \<and> stored env (db w) code = Some m"
  then have i: "increment_safe env" and s: "stored env (db w) code = Some m" by simp_all
  from resolve_all_keeps [OF i s, of rs] obtain m' where
    m': "stored env (db (resolve_all env w rs)) code = Some m'"
    "LongURL m' = LongURL m" "AccessCount m \<le> AccessCount m'"
    by blast
  then have "\<forall>r. path_shortURL r = code \<longrightarrow>
                 fst (getOriginalURL env (resolve_all env w rs) r) =
                   Return \<lparr>StatusCode = 301, Headers = [(''Location'', LongURL m)],
                           Body = ''''\<rparr> None"
    using stored_resolve [of env "resolve_all env w rs"] by auto
  with m' show "\<exists>m'. stored env (db (resolve_all env w rs)) code = Some m'
          \<and> LongURL m' = LongURL m \<and> AccessCount m \<le> AccessCount m'
          \<and> (\<forall>r. path_shortURL r = code \<longrightarrow>
                 fst (getOriginalURL env (resolve_all env w rs) r) =
                   Return \<lparr>StatusCode = 301, Headers = [(''Location'', LongURL m)],
                           Body = ''''\<rparr> None)"
    by blast
qed

theorem access_count_monotone_witness:
  \<open>(\<exists>m item. AccessCount m = 0 \<and> mem_MarshalMap m = Inr item
       \<and> calls world1 = [PutItemCall (PutItemInput ''url-shortener'' item)])
   \<and> (\<exists>m'. stored mem_env
              (db (resolve_all mem_env world1 [get_code ''17000000'', get_code ''00000000'',
                                               get_code ''17000000'']))
              ''17000000'' = Some m'
         \<and> LongURL m' = ''https://example.com'' \<and> 0 \<le> AccessCount m'
         \<and> fst (getOriginalURL mem_env
                 (resolve_all mem_env world1 [get_code ''17000000'', get_code ''00000000'',
                                               get_code ''17000000''])
                 (get_code ''17000000'')) =
             Return \<lparr>StatusCode = 301, Headers = [(''Location'', ''https://example.com'')],
                     Body = ''''\<rparr> None)
   \<and> (\<exists>m'. stored counting_env
              (db (resolve_all counting_env world1 [get_code ''17000000'', get_code ''17000000'']))
              ''17000000'' = Some m'
         \<and> LongURL m' = ''https://example.com'' \<and> AccessCount m' = 2
         \<and> fst (getOriginalURL counting_env
                 (resolve_all counting_env world1 [get_code ''17000000'', get_code ''17000000''])
                 (get_code ''17000000'')) =
             Return \<lparr>StatusCode = 301, Headers = [(''Location'', ''https://example.com'')],
                     Body = ''''\<rparr> None)\<close>
proof (intro conjI)
  have st: "StatusCode \<lparr>StatusCode = 201, Headers = [(''Content-Type'', ''application/json'')],
              Body = mem_json_Marshal
                \<lparr>ShortURL = ''17000000'', LongURL = ''https://example.com'',
                 CreatedAt = 1700000000123457789, AccessCount = 0\<rparr>\<rparr> = 201"
    by simp
  from conjunct1 [OF access_count_monotone, rule_format, OF conjI [OF create_example st]]
  show "\<exists>m item. AccessCount m = 0 \<and> mem_MarshalMap m = Inr item
       \<and> calls world1 = [PutItemCall (PutItemInput ''url-shortener'' item)]"
    by (auto simp add: mem_env_fields world0_fields)
next
  have p: "path_shortURL (get_code ''17000000'') = ''17000000''"
    by (simp add: path_shortURL_def get_code_def)
  from conjunct2 [OF access_count_monotone, rule_format,
      OF conjI [OF increment_safe_mem_env stored_example]]
  show "\<exists>m'. stored mem_env
              (db (resolve_all mem_env world1 [get_code ''17000000'', get_code ''00000000'',
                                               get_code ''17000000'']))
              ''17000000'' = Some m'
         \<and> LongURL m' = ''https://example.com'' \<and> 0 \<le> AccessCount m'
         \<and> fst (getOriginalURL mem_env
                 (resolve_all mem_env world1 [get_code ''17000000'', get_code ''00000000'',
                                               get_code ''17000000''])
                 (get_code ''17000000'')) =
             Return \<lparr>StatusCode = 301, Headers = [(''Location'', ''https://example.com'')],
                     Body = ''''\<rparr> None"
    using p by fastforce
next
  have p: "path_shortURL (get_code ''17000000'') = ''17000000''"
    by (simp add: path_shortURL_def get_code_def)
  from conjunct2 [OF access_count_monotone, rule_format,
      OF conjI [OF increment_safe_counting_env stored_counting_example],
      of "[get_code ''17000000'', get_code ''17000000'']"]
  obtain m' where
    "stored counting_env
       (db (resolve_all counting_env world1 [get_code ''17000000'', get_code ''17000000'']))
       ''17000000'' = Some m'"
    "LongURL m' = ''https://example.com''"
    "fst (getOriginalURL counting_env
           (resolve_all counting_env world1 [get_code ''17000000'', get_code ''17000000''])
           (get_code ''17000000'')) =
       Return \<lparr>StatusCode = 301, Headers = [(''Location'', ''https://example.com'')],
               Body = ''''\<rparr> None"
    using p by fastforce
  moreover from this(1) have "AccessCount m' = 2"
    unfolding counting_twice by auto
  ultimately show "\<exists>m'. stored counting_env
              (db (resolve_all counting_env world1 [get_code ''17000000'', get_code ''17000000'']))
              ''17000000'' = Some m'
         \<and> LongURL m' = ''https://example.com'' \<and> AccessCount m' = 2
         \<and> fst (getOriginalURL counting_env
                 (resolve_all counting_env world1 [get_code ''17000000'', get_code ''17000000''])
                 (get_code ''17000000'')) =
             Return \<lparr>StatusCode = 301, Headers = [(''Location'', ''https://example.com'')],
                     Body = ''''\<rparr> None"
    by blast
qed

section \<open>A record that does not marshal\<close>

text \<open>
  Claim C9. When the body decodes and the short code is generated, but marshalling the
  new record fails with \<open>e\<close>, Create returns 500 "Error marshaling item" with the error
  \<open>e\<close>; the table is as before and no request was sent to it.
\<close>

theorem create_marshal_failure:
  assumes "json_Unmarshal env (RequestBody request) = Inr createReq"
    and "generateShortURL env w = (Some shortURL, w1)"
    and "MarshalMap env \<lparr>ShortURL = shortURL, LongURL = CreateLongURL createReq,
                         CreatedAt = clock env (ticks w1), AccessCount = 0\<rparr> = Inl e"
  shows "fst (createShortURL env w request) =
           Return \<lparr>StatusCode = 500, Headers = [], Body = ''Error marshaling item''\<rparr> (Some e)
         \<and> db (snd (createShortURL env w request)) = db w
         \<and> calls (snd (createShortURL env w request)) = calls w"
  using assms
  by (auto simp add: createShortURL_def generateShortURL_def time_Now_def split: prod.splits)

theorem create_marshal_failure_witness:
  "fst (createShortURL no_marshal_env world0 (post ''{}'')) =
     Return \<lparr>StatusCode = 500, Headers = [], Body = ''Error marshaling item''\<rparr> (Some ''marshal failed'')
   \<and> db (snd (createShortURL no_marshal_env world0 (post ''{}''))) = []
   \<and> calls (snd (createShortURL no_marshal_env world0 (post ''{}''))) = []"
  using create_marshal_failure [of no_marshal_env "post ''{}''" "\<lparr>CreateLongURL = ''''\<rparr>" world0
      "''17000000''" "world0\<lparr>ticks := Suc 0\<rparr>" "''marshal failed''"]
  by (simp add: generateShortURL_no_marshal json_Unmarshal_empty_object no_marshal_env_fields
      mem_scan_empty_object post_def world0_fields)

section \<open>A request without the path parameter\<close>

text \<open>
  Claim C10. A GET request with no \<open>shortURL\<close> path parameter is handled exactly as one
  whose \<open>shortURL\<close> is the empty string: the first thing sent to the table is the read
  with the key built from the empty string, and the answer is one of 301, 404 and 500,
  not a client error of its own.
\<close>

theorem resolve_missing_path_parameter:
  assumes "PathParameters request ''shortURL'' = None"
    and "MarshalMap_key env [(''short_url'', '''')] = Inr key"
  shows "getOriginalURL env w request =
           getOriginalURL env w (request\<lparr>PathParameters := [''shortURL'' \<mapsto> '''']\<rparr>)
         \<and> take (Suc (length (calls w))) (calls (snd (getOriginalURL env w request))) =
             calls w @ [GetItemCall (GetItemInput (tableName env) key)]
         \<and> (\<exists>resp err. fst (getOriginalURL env w request) = Return resp err
                \<and> (StatusCode resp = 301 \<or> StatusCode resp = 404 \<or> StatusCode resp = 500))"
  using assms
  by (auto simp add: getOriginalURL_def path_shortURL_def ddb_GetItem_def ddb_UpdateItem_def
      log_Printf_def
      split: sum.splits prod.splits option.splits GetItemOutput.splits)

theorem resolve_missing_path_parameter_witness:
  "getOriginalURL mem_env world0 get_without_code = getOriginalURL mem_env world0 (get_code '''')
   \<and> take (Suc 0) (calls (snd (getOriginalURL mem_env world0 get_without_code))) =
       [GetItemCall (GetItemInput ''url-shortener'' [(''short_url'', AttributeValueMemberS '''')])]"
proof -
  have none: "PathParameters get_without_code ''shortURL'' = None"
    by (simp add: get_without_code_def)
  have key: "MarshalMap_key mem_env [(''short_url'', '''')] =
      Inr [(''short_url'', AttributeValueMemberS '''')]"
    by (simp add: mem_env_fields mem_MarshalMap_key_def)
  have same: "get_without_code\<lparr>PathParameters := [''shortURL'' \<mapsto> '''']\<rparr> = get_code ''''"
    by (simp add: get_without_code_def get_code_def)
  note facts = resolve_missing_path_parameter [OF none key, of world0]
  show ?thesis
  proof (intro conjI)
    show "getOriginalURL mem_env world0 get_without_code = getOriginalURL mem_env world0 (get_code '''')"
      using facts same by simp
    show "take (Suc 0) (calls (snd (getOriginalURL mem_env world0 get_without_code))) =
       [GetItemCall (GetItemInput ''url-shortener'' [(''short_url'', AttributeValueMemberS '''')])]"
      using conjunct1 [OF conjunct2 [OF facts]] by (simp add: mem_env_fields world0_fields)
  qed
qed

end
